theory Spec2Isabelle
  imports Main "HOL-Library.Word"
begin

section \<open>Common values\<close>

text \<open>
  An IPv4 address range in CIDR notation, \<open>a.b.c.d/n\<close>: the network address as a number
  and the prefix length. The source writes them as strings (\<open>"10.0.0.0/16"\<close>,
  \<open>'0.0.0.0/0'\<close>); the model keeps the two numbers the string denotes.
\<close>

record Cidr =
  netAddr :: nat
  maskLen :: nat

definition ipv4 :: "nat \<Rightarrow> nat \<Rightarrow> nat \<Rightarrow> nat \<Rightarrow> nat" where
  "ipv4 a b c d = ((a * 256 + b) * 256 + c) * 256 + d"

definition cidrBlock :: "nat \<Rightarrow> nat \<Rightarrow> nat \<Rightarrow> nat \<Rightarrow> nat \<Rightarrow> Cidr" where
  "cidrBlock a b c d n = \<lparr>netAddr = ipv4 a b c d, maskLen = n\<rparr>"

text \<open>The number of addresses of a network with prefix length \<open>m\<close>.\<close>

definition networkSize :: "nat \<Rightarrow> nat" where
  "networkSize m = 2 ^ (32 - m)"

text \<open>Membership of a 32-bit address in a range: the leading \<open>maskLen\<close> bits agree.\<close>

definition inCidr :: "32 word \<Rightarrow> Cidr \<Rightarrow> bool" where
  "inCidr ip c = (unat ip div networkSize (maskLen c) = netAddr c div networkSize (maskLen c))"

text \<open>
  Everything that stops a stack's constructor: a JavaScript \<open>TypeError\<close> (reading a
  property of \<open>undefined\<close>), an address block that cannot hold the requested subnets,
  a registry key that does not resolve, a network that the look-up does not find.
\<close>

datatype error =
    TypeError string
  | CidrExhausted
  | ParameterNotFound string
  | VpcNotFound string

text \<open>A template literal \<open>${index}\<close> prints the index in decimal.\<close>

fun showNat :: "nat \<Rightarrow> string" where
  "showNat n =
     (if n < 10 then [''0123456789'' ! n]
      else showNat (n div 10) @ [''0123456789'' ! (n mod 10)])"

declare showNat.simps [simp del]

text \<open>
  \<open>xs[i]\<close> followed by a property read: out of range the element is \<open>undefined\<close> and
  the read throws.
\<close>

definition elementAt :: "'a list \<Rightarrow> nat \<Rightarrow> string \<Rightarrow> error + 'a" where
  "elementAt xs i what = (if i < length xs then Inr (xs ! i) else Inl (TypeError what))"

text \<open>\<open>xs.forEach((x, index) => ...)\<close> visits the elements with their indices, in order.\<close>

definition withIndex :: "'a list \<Rightarrow> (nat \<times> 'a) list" where
  "withIndex xs = zip [0..<length xs] xs"

section \<open>The network of the toolkit\<close>

datatype SubnetType = PUBLIC | PRIVATE_WITH_EGRESS | PRIVATE_ISOLATED

record SubnetConfiguration =
  cidrMask :: nat
  name :: string
  subnetType :: SubnetType

record VpcProps =
  vpcName :: string
  cidr :: Cidr
  maxAzs :: nat
  natGateways :: nat
  createInternetGateway :: bool
  subnetConfiguration :: "SubnetConfiguration list"

record Subnet =
  subnetId :: string
  availabilityZone :: string
  ipv4CidrBlock :: Cidr
  routeTableId :: string
  placement :: SubnetType

record Vpc =
  vpcId :: string
  vpcCidrBlock :: Cidr
  publicSubnets :: "Subnet list"
  privateSubnets :: "Subnet list"

text \<open>
  Modelled from the spec: the \<open>Vpc\<close> construct belongs to the toolkit's library, which is
  not among the sources. The spec's contract for it (section 4.1) is: given a number of
  availability zones and a CIDR block, one network with one subnet per configured group
  and zone, failing at once when the block cannot be divided into the requested subnets
  at the requested mask. The model follows it:
  \<^item> the zones used are the first \<open>maxAzs\<close> zones of the stack's environment;
  \<^item> the blocks are carved from the network's block in order, group by group and zone
    by zone, each at the group's \<open>cidrMask\<close>, each starting at the next address that is a
    multiple of its size;
  \<^item> the subnet of group \<open>g\<close> in the zone of index \<open>i\<close> is named \<open><name of g>Subnet<i+1>\<close>,
    and its identifier and its route table's identifier are tokens derived from that
    name;
  \<^item> the source passes \<open>createInternetGateway: false\<close> ("We will create an Internet
    Gateway manually") and declares the gateways and the default routes itself; the
    construct is taken to declare none of its own, so that the gateways and routes of the
    network are the ones the stack below declares.
\<close>

definition roundUp :: "nat \<Rightarrow> nat \<Rightarrow> nat" where
  "roundUp n k = ((n + k - 1) div k) * k"

fun allocateSubnetsCidr :: "Cidr \<Rightarrow> nat \<Rightarrow> nat list \<Rightarrow> error + Cidr list" where
  "allocateSubnetsCidr net next [] = Inr []"
| "allocateSubnetsCidr net next (m # ms) =
     (let start = roundUp next (networkSize m) in
      if netAddr net \<le> start \<and>
         start + networkSize m \<le> netAddr net + networkSize (maskLen net)
      then (case allocateSubnetsCidr net (start + networkSize m) ms of
              Inl e \<Rightarrow> Inl e
            | Inr blocks \<Rightarrow> Inr (\<lparr>netAddr = start, maskLen = m\<rparr> # blocks))
      else Inl CidrExhausted)"

definition createSubnet :: "SubnetConfiguration \<Rightarrow> nat \<Rightarrow> string \<Rightarrow> Cidr \<Rightarrow> Subnet" where
  "createSubnet cfg i zone block =
     \<lparr>subnetId = name cfg @ ''Subnet'' @ showNat (i + 1),
      availabilityZone = zone,
      ipv4CidrBlock = block,
      routeTableId = name cfg @ ''Subnet'' @ showNat (i + 1) @ ''/RouteTable'',
      placement = subnetType cfg\<rparr>"

fun createSubnets :: "SubnetConfiguration list \<Rightarrow> string list \<Rightarrow> Cidr list \<Rightarrow> Subnet list" where
  "createSubnets [] zones blocks = []"
| "createSubnets (cfg # cfgs) zones blocks =
     map (\<lambda>(i, zone, block). createSubnet cfg i zone block)
         (zip [0..<length zones] (zip zones (take (length zones) blocks)))
     @ createSubnets cfgs zones (drop (length zones) blocks)"

definition newVpc :: "string \<Rightarrow> VpcProps \<Rightarrow> string list \<Rightarrow> error + Vpc" where
  "newVpc ident props stackZones =
     (let zones = take (maxAzs props) stackZones;
          masks = concat (map (\<lambda>cfg. replicate (length zones) (cidrMask cfg))
                              (subnetConfiguration props))
      in case allocateSubnetsCidr (cidr props) (netAddr (cidr props)) masks of
           Inl e \<Rightarrow> Inl e
         | Inr blocks \<Rightarrow>
             (let subnets = createSubnets (subnetConfiguration props) zones blocks
              in Inr \<lparr>vpcId = ident,
                      vpcCidrBlock = cidr props,
                      publicSubnets = filter (\<lambda>s. placement s = PUBLIC) subnets,
                      privateSubnets = filter (\<lambda>s. placement s = PRIVATE_WITH_EGRESS) subnets\<rparr>))"

section \<open>The network stack (lib/infra-stack.ts)\<close>

text \<open>
  The resources the constructor declares itself, with the properties it gives them. The
  reference (\<open>.ref\<close>, \<open>.attrAllocationId\<close>) of a declared resource is the token of its
  identifier.
\<close>

datatype RouteTarget = NatGatewayId string | GatewayId string

datatype Resource =
    CfnInternetGateway string
  | CfnVPCGatewayAttachment string string string
  | CfnEIP string
  | CfnNatGateway string string string
  | CfnRoute string string Cidr RouteTarget
  | StringParameter string string string

fun ref :: "Resource \<Rightarrow> string" where
  "ref (CfnInternetGateway ident) = ident"
| "ref (CfnVPCGatewayAttachment ident v g) = ident"
| "ref (CfnEIP ident) = ident"
| "ref (CfnNatGateway ident s a) = ident"
| "ref (CfnRoute ident t d g) = ident"
| "ref (StringParameter ident k v) = ident"

record NetworkStack =
  vpc :: Vpc
  resources :: "Resource list"

text \<open>
  The constructor, with the two literals the claims vary (\<open>maxAzs: 2\<close> and
  \<open>cidr: "10.0.0.0/16"\<close>) as arguments \<open>A\<close> and \<open>block\<close>, and the zones of the stack's
  environment as \<open>stackZones\<close>; everything else is as written, in the order written.
\<close>

definition deployStackWith :: "nat \<Rightarrow> Cidr \<Rightarrow> string list \<Rightarrow> error + NetworkStack" where
  "deployStackWith A block stackZones =
     (case newVpc ''myVPC''
             \<lparr>vpcName = ''expenseTracker'', cidr = block, maxAzs = A, natGateways = 2,
              createInternetGateway = False,
              subnetConfiguration =
                [\<lparr>cidrMask = 24, name = ''public-subnet'', subnetType = PUBLIC\<rparr>,
                 \<lparr>cidrMask = 24, name = ''private-subnet'',
                  subnetType = PRIVATE_WITH_EGRESS\<rparr>]\<rparr>
             stackZones of
        Inl e \<Rightarrow> Inl e
      | Inr v \<Rightarrow>
         (let internetGateway = CfnInternetGateway ''InternetGateway'';
              attachment = CfnVPCGatewayAttachment ''MyUniqueVPCGatewayAttachment''
                             (vpcId v) (ref internetGateway)
          in case elementAt (publicSubnets v) 0 ''subnetId'' of
               Inl e \<Rightarrow> Inl e
             | Inr public0 \<Rightarrow>
          (let eipOne = CfnEIP ''EIPForNatGatewayOne'';
               natGatewayOne = CfnNatGateway ''NatGatewayOne'' (subnetId public0) (ref eipOne)
           in case elementAt (publicSubnets v) 1 ''subnetId'' of
                Inl e \<Rightarrow> Inl e
              | Inr public1 \<Rightarrow>
          (let eipTwo = CfnEIP ''EIPForNatGatewayTwo'';
               natGatewayTwo = CfnNatGateway ''NatGatewayTwo'' (subnetId public1) (ref eipTwo);
               privateRoutes =
                 map (\<lambda>(index, subnet).
                        CfnRoute (''PrivateRouteToNatGateway-'' @ showNat index)
                          (routeTableId subnet) (cidrBlock 0 0 0 0 0)
                          (NatGatewayId (if index = 0 then ref natGatewayOne
                                         else ref natGatewayTwo)))
                     (withIndex (privateSubnets v));
               publicRoutes =
                 map (\<lambda>(index, subnet).
                        CfnRoute (''PublicRouteToInternetGateway-'' @ showNat index)
                          (routeTableId subnet) (cidrBlock 0 0 0 0 0)
                          (GatewayId (ref internetGateway)))
                     (withIndex (publicSubnets v));
               vpcIdExport = StringParameter ''VpcIdExport'' ''VpcId'' (vpcId v);
               publicExports =
                 map (\<lambda>(index, subnet).
                        StringParameter (''PublicSubnetExport-'' @ showNat index)
                          (''PublicSubnet-'' @ showNat index) (subnetId subnet))
                     (withIndex (publicSubnets v));
               privateExports =
                 map (\<lambda>(index, subnet).
                        StringParameter (''PrivateSubnetExport-'' @ showNat index)
                          (''PrivateSubnet-'' @ showNat index) (subnetId subnet))
                     (withIndex (privateSubnets v))
           in Inr \<lparr>vpc = v,
                   resources =
                     [internetGateway, attachment, eipOne, natGatewayOne, eipTwo,
                      natGatewayTwo]
                     @ privateRoutes @ publicRoutes @ [vpcIdExport]
                     @ publicExports @ privateExports\<rparr>))))"

definition ExpenseTrackerServicesDeployStack :: "string list \<Rightarrow> error + NetworkStack" where
  "ExpenseTrackerServicesDeployStack stackZones =
     deployStackWith 2 (cidrBlock 10 0 0 0 16) stackZones"

section \<open>The registry between the two stacks\<close>

type_synonym Registry = "string \<rightharpoonup> string"

text \<open>
  Deploying a stack writes each declared \<open>StringParameter\<close>'s value under its
  \<open>parameterName\<close>.
\<close>

fun publishedParameter :: "Resource \<Rightarrow> (string \<times> string) list" where
  "publishedParameter (StringParameter ident parameterName stringValue) =
     [(parameterName, stringValue)]"
| "publishedParameter r = []"

definition publishedParameters :: "Resource list \<Rightarrow> (string \<times> string) list" where
  "publishedParameters rs = concat (map publishedParameter rs)"

definition registryOf :: "(string \<times> string) list \<Rightarrow> Registry" where
  "registryOf entries = map_of entries"

text \<open>
  Modelled from the spec: \<open>StringParameter.valueFromLookup\<close> belongs to the toolkit's
  library, which is not among the sources. The spec's registry read (sections 5 to 7)
  resolves the key at provisioning time, and a key that does not resolve keeps the stage
  from proceeding. The scope (\<open>this\<close>) records the keys it was asked to resolve: the
  second argument and the second component of the result.
\<close>

definition valueFromLookup ::
    "Registry \<Rightarrow> string list \<Rightarrow> string \<Rightarrow> error + (string \<times> string list)" where
  "valueFromLookup registry scope parameterName =
     (case registry parameterName of
        None \<Rightarrow> Inl (ParameterNotFound parameterName)
      | Some v \<Rightarrow> Inr (v, scope @ [parameterName]))"

text \<open>
  Modelled from the spec: \<open>Vpc.fromLookup\<close> belongs to the library as well. It finds the
  deployed network of the given identifier in the account (a map from identifiers to
  networks), or stops the stage.
\<close>

type_synonym Account = "string \<rightharpoonup> Vpc"

definition fromLookup :: "Account \<Rightarrow> string \<Rightarrow> error + Vpc" where
  "fromLookup account ident =
     (case account ident of None \<Rightarrow> Inl (VpcNotFound ident) | Some v \<Rightarrow> Inr v)"

section \<open>The constructs of the services stack\<close>

record ISubnet =
  importId :: string
  importedSubnetId :: string

definition fromSubnetId :: "string \<Rightarrow> string \<Rightarrow> ISubnet" where
  "fromSubnetId ident sid = \<lparr>importId = ident, importedSubnetId = sid\<rparr>"

subsection \<open>Security groups\<close>

datatype Protocol = TCP | UDP | ICMP | ALL_PROTOCOLS

record Port =
  portProtocol :: Protocol
  fromPort :: nat
  toPort :: nat

definition tcp :: "nat \<Rightarrow> Port" where
  "tcp p = \<lparr>portProtocol = TCP, fromPort = p, toPort = p\<rparr>"

definition allTraffic :: Port where
  "allTraffic = \<lparr>portProtocol = ALL_PROTOCOLS, fromPort = 0, toPort = 65535\<rparr>"

record Rule =
  peer :: Cidr
  connection :: Port
  description :: string

record SecurityGroup =
  securityGroupId :: string
  securityGroupVpc :: string
  ingressRules :: "Rule list"
  egressRules :: "Rule list"

text \<open>
  A new security group has no ingress rule; \<open>allowAllOutbound: true\<close> gives it the one
  egress rule for all traffic to anywhere.
\<close>

definition newSecurityGroup :: "string \<Rightarrow> Vpc \<Rightarrow> bool \<Rightarrow> SecurityGroup" where
  "newSecurityGroup ident v allowAllOutbound =
     \<lparr>securityGroupId = ident,
      securityGroupVpc = vpcId v,
      ingressRules = [],
      egressRules =
        (if allowAllOutbound
         then [\<lparr>peer = cidrBlock 0 0 0 0 0, connection = allTraffic,
                description = ''Allow all outbound traffic by default''\<rparr>]
         else [])\<rparr>"

definition addIngressRule :: "SecurityGroup \<Rightarrow> Cidr \<Rightarrow> Port \<Rightarrow> string \<Rightarrow> SecurityGroup" where
  "addIngressRule sg p c d =
     sg\<lparr>ingressRules := ingressRules sg @ [\<lparr>peer = p, connection = c, description = d\<rparr>]\<rparr>"

text \<open>
  Modelled from the spec: how the platform filters traffic is not code of the repository.
  The spec's security boundary (section 3) permits only the explicitly enumerated
  (protocol, port, source) triples: traffic passes when one of the rules names its
  protocol, port and address, and nothing else passes.
\<close>

definition ruleAllows :: "Rule \<Rightarrow> Protocol \<Rightarrow> nat \<Rightarrow> 32 word \<Rightarrow> bool" where
  "ruleAllows r proto p addr =
     ((portProtocol (connection r) = ALL_PROTOCOLS
       \<or> (portProtocol (connection r) = proto
          \<and> fromPort (connection r) \<le> p \<and> p \<le> toPort (connection r)))
      \<and> inCidr addr (peer r))"

definition permitsInbound :: "SecurityGroup \<Rightarrow> Protocol \<Rightarrow> nat \<Rightarrow> 32 word \<Rightarrow> bool" where
  "permitsInbound sg proto p src = list_ex (\<lambda>r. ruleAllows r proto p src) (ingressRules sg)"

definition permitsOutbound :: "SecurityGroup \<Rightarrow> Protocol \<Rightarrow> nat \<Rightarrow> 32 word \<Rightarrow> bool" where
  "permitsOutbound sg proto p dst = list_ex (\<lambda>r. ruleAllows r proto p dst) (egressRules sg)"

subsection \<open>Cluster, task definitions, services\<close>

record Cluster =
  clusterId :: string
  clusterVpc :: string
  defaultCloudMapNamespace :: string

datatype AwsLogDriverMode = BLOCKING | NON_BLOCKING

record LogDriver =
  streamPrefix :: string
  logMode :: AwsLogDriverMode
  maxBufferSizeMiB :: nat

record ContainerDefinition =
  containerId :: string
  containerImage :: string
  environment :: "(string \<times> string) list"
  logging :: LogDriver
  portMappings :: "nat list"

record FargateTaskDefinition =
  taskDefinitionId :: string
  memoryLimitMiB :: "nat option"
  cpu :: "nat option"
  containers :: "ContainerDefinition list"

definition addContainer ::
    "FargateTaskDefinition \<Rightarrow> ContainerDefinition \<Rightarrow> FargateTaskDefinition" where
  "addContainer td c = td\<lparr>containers := containers td @ [c]\<rparr>"

record FargateService =
  serviceId :: string
  serviceCluster :: Cluster
  taskDefinition :: FargateTaskDefinition
  desiredCount :: nat
  securityGroups :: "SecurityGroup list"
  vpcSubnets :: "ISubnet list"
  enableExecuteCommand :: bool
  cloudMapName :: "string option"

text \<open>
  Modelled from the spec: how the platform runs a service is not code of the repository.
  A workload is a task specification plus a desired replica count (section 3): the
  platform runs \<open>desiredCount\<close> replicas, each from the service's one task definition,
  and a replica's environment is that of the task definition's containers.
\<close>

definition replicas :: "FargateService \<Rightarrow> FargateTaskDefinition list" where
  "replicas s = replicate (desiredCount s) (taskDefinition s)"

definition replicaEnvironment :: "FargateTaskDefinition \<Rightarrow> string \<Rightarrow> string option" where
  "replicaEnvironment td k = map_of (concat (map environment (containers td))) k"

subsection \<open>Load balancer\<close>

datatype TargetType = IP | INSTANCE

datatype ElbProtocol = ELB_TCP | ELB_UDP | ELB_TCP_UDP | ELB_TLS

record NetworkTargetGroup =
  targetGroupId :: string
  targetGroupVpc :: string
  targetGroupPort :: nat
  targetGroupProtocol :: ElbProtocol
  targetType :: TargetType
  targets :: "string list"

definition addTarget :: "NetworkTargetGroup \<Rightarrow> FargateService \<Rightarrow> NetworkTargetGroup" where
  "addTarget tg s = tg\<lparr>targets := targets tg @ [serviceId s]\<rparr>"

record NetworkListener =
  listenerId :: string
  listenerPort :: nat
  listenerProtocol :: ElbProtocol
  defaultTargetGroups :: "NetworkTargetGroup list"

record NetworkLoadBalancer =
  loadBalancerId :: string
  loadBalancerVpc :: string
  internetFacing :: bool
  loadBalancerSubnets :: "ISubnet list"
  loadBalancerDnsName :: string
  listeners :: "NetworkListener list"

definition addListener :: "NetworkLoadBalancer \<Rightarrow> NetworkListener \<Rightarrow> NetworkLoadBalancer" where
  "addListener lb l = lb\<lparr>listeners := listeners lb @ [l]\<rparr>"

section \<open>The services stack\<close>

record ServicesStack =
  lookups :: "string list"
  importedVpc :: Vpc
  privateSubnet1 :: ISubnet
  privateSubnet2 :: ISubnet
  dbSecurityGroup :: SecurityGroup
  cluster :: Cluster
  nlb :: NetworkLoadBalancer
  taskDefinitions :: "FargateTaskDefinition list"
  services :: "FargateService list"
  targetGroups :: "NetworkTargetGroup list"
  parameters :: "Resource list"

definition awsLogs :: "string \<Rightarrow> LogDriver" where
  "awsLogs prefix = \<lparr>streamPrefix = prefix, logMode = NON_BLOCKING, maxBufferSizeMiB = 25\<rparr>"

text \<open>
  Everything the constructor declares once the identifiers are resolved, in the order
  of the source. \<open>dnsName\<close> is the address that \<open>nlb.loadBalancerDnsName\<close> stands for.
\<close>

definition provision ::
    "string list \<Rightarrow> Vpc \<Rightarrow> string \<Rightarrow> string \<Rightarrow> string \<Rightarrow> ServicesStack" where
  "provision scope v subnetId1 subnetId2 dnsName =
     (let privateSubnet1 = fromSubnetId ''PrivateSubnet1'' subnetId1;
          privateSubnet2 = fromSubnetId ''PrivateSubnet2'' subnetId2;
          dbSecurityGroup0 = newSecurityGroup ''DbSecurityGroup'' v True;
          dbSecurityGroup1 = addIngressRule dbSecurityGroup0 (vpcCidrBlock v) (tcp 3306)
                               ''Allow MySQL traffic'';
          dbSecurityGroup2 = addIngressRule dbSecurityGroup1 (vpcCidrBlock v) (tcp 9092)
                               ''Allow Kafka traffic'';
          dbSecurityGroup = addIngressRule dbSecurityGroup2 (vpcCidrBlock v) (tcp 2181)
                               ''Allow Kafka to access Zookeeper'';
          cluster = \<lparr>clusterId = ''DatabaseKafkaCluster'', clusterVpc = vpcId v,
                     defaultCloudMapNamespace = ''local''\<rparr>;
          nlb0 = \<lparr>loadBalancerId = ''DatabaseNLB'', loadBalancerVpc = vpcId v,
                  internetFacing = False,
                  loadBalancerSubnets = [privateSubnet1, privateSubnet2],
                  loadBalancerDnsName = dnsName, listeners = []\<rparr>;
          mysqlTaskDefination =
            addContainer
              \<lparr>taskDefinitionId = ''MySQLTaskDef'', memoryLimitMiB = None, cpu = None,
               containers = []\<rparr>
              \<lparr>containerId = ''MySQLContainer'', containerImage = ''mysql:8.3.0'',
               environment =
                 [(''MYSQL_ROOT_PASSWORD'', ''12345''),
                  (''MYSQL_USER'', ''user''),
                  (''MYSQL_PASSWORD'', ''12345''),
                  (''MYSQL_ROOT_USER'', ''root'')],
               logging = awsLogs ''MySql'',
               portMappings = [3306]\<rparr>;
          zookeeperTaskDefination =
            addContainer
              \<lparr>taskDefinitionId = ''ZookeeperTaskDef'', memoryLimitMiB = Some 512,
               cpu = Some 256, containers = []\<rparr>
              \<lparr>containerId = ''ZookeeperContainer'',
               containerImage = ''confluentinc/cp-zookeeper:7.4.4'',
               environment =
                 [(''ZOOKEEPER_CLIENT_PORT'', ''2181''),
                  (''ZOOKEEPER_TICK_TIME'', ''2000'')],
               logging = awsLogs ''Zookeeper'',
               portMappings = [2181]\<rparr>;
          kafkaTaskDefination =
            addContainer
              \<lparr>taskDefinitionId = ''KafkaTaskDef'', memoryLimitMiB = Some 1024,
               cpu = Some 512, containers = []\<rparr>
              \<lparr>containerId = ''KafkaContainer'',
               containerImage = ''confluentinc/cp-kafka:7.4.4'',
               environment =
                 [(''KAFKA_BROKER_ID'', ''1''),
                  (''KAFKA_ZOOKEEPER_CONNECT'', ''zookeeper-service.local:2181''),
                  (''KAFKA_ADVERTISED_LISTENERS'',
                     ''PLAINTEXT://'' @ loadBalancerDnsName nlb0 @ '':9092''),
                  (''KAFKA_LISTENERS'', ''PLAINTEXT://:9092''),
                  (''KAFKA_LISTENER_SECURITY_PROTOCOL_MAP'', ''PLAINTEXT:PLAINTEXT''),
                  (''KAFKA_INTER_BROKER_LISTENER_NAME'', ''PLAINTEXT''),
                  (''KAFKA_OFFSETS_TOPIC_REPLICATION_FACTOR'', ''1''),
                  (''KAFKA_AUTO_CREATE_TOPICS_ENABLE'', ''true''),
                  (''KAFKA_NUM_PARTITIONS'', ''3''),
                  (''KAFKA_DEFAULT_REPLICATION_FACTOR'', ''1''),
                  (''KAFKA_MIN_INSYNC_REPLICAS'', ''1''),
                  (''KAFKA_UNCLEAN_LEADER_ELECTION_ENABLE'', ''false''),
                  (''KAFKA_BROKER_RACK'', ''RACK1'')],
               logging = awsLogs ''Kafka'',
               portMappings = [9092]\<rparr>;
          mysqlService =
            \<lparr>serviceId = ''MySQLService'', serviceCluster = cluster,
             taskDefinition = mysqlTaskDefination, desiredCount = 1,
             securityGroups = [dbSecurityGroup],
             vpcSubnets = [privateSubnet1, privateSubnet2],
             enableExecuteCommand = True, cloudMapName = None\<rparr>;
          zookeeperService =
            \<lparr>serviceId = ''ZookeeperService'', serviceCluster = cluster,
             taskDefinition = zookeeperTaskDefination, desiredCount = 3,
             securityGroups = [dbSecurityGroup],
             vpcSubnets = [privateSubnet1, privateSubnet2],
             enableExecuteCommand = False, cloudMapName = Some ''zookeeper-service''\<rparr>;
          kafkaService =
            \<lparr>serviceId = ''KafkaService'', serviceCluster = cluster,
             taskDefinition = kafkaTaskDefination, desiredCount = 3,
             securityGroups = [dbSecurityGroup],
             vpcSubnets = [privateSubnet1, privateSubnet2],
             enableExecuteCommand = False, cloudMapName = Some ''kafka-service''\<rparr>;
          mysqlTargetGroup =
            addTarget
              \<lparr>targetGroupId = ''MySQLTargetGroup'', targetGroupVpc = vpcId v,
               targetGroupPort = 3306, targetGroupProtocol = ELB_TCP, targetType = IP,
               targets = []\<rparr>
              mysqlService;
          kafkaTargetGroup =
            addTarget
              \<lparr>targetGroupId = ''KafkaTargetGroup'', targetGroupVpc = vpcId v,
               targetGroupPort = 9092, targetGroupProtocol = ELB_TCP, targetType = IP,
               targets = []\<rparr>
              kafkaService;
          nlb1 = addListener nlb0
                   \<lparr>listenerId = ''MySQLListener'', listenerPort = 3306,
                    listenerProtocol = ELB_TCP,
                    defaultTargetGroups = [mysqlTargetGroup]\<rparr>;
          nlb2 = addListener nlb1
                   \<lparr>listenerId = ''KafkaListener'', listenerPort = 9092,
                    listenerProtocol = ELB_TCP,
                    defaultTargetGroups = [kafkaTargetGroup]\<rparr>
      in \<lparr>lookups = scope,
          importedVpc = v,
          privateSubnet1 = privateSubnet1,
          privateSubnet2 = privateSubnet2,
          dbSecurityGroup = dbSecurityGroup,
          cluster = cluster,
          nlb = nlb2,
          taskDefinitions = [mysqlTaskDefination, zookeeperTaskDefination, kafkaTaskDefination],
          services = [mysqlService, zookeeperService, kafkaService],
          targetGroups = [mysqlTargetGroup, kafkaTargetGroup],
          parameters =
            [StringParameter ''ExpenseTrackerServicesNLB'' ''ExpenseTrackerServicesNLB''
               (loadBalancerDnsName nlb2)]\<rparr>)"

text \<open>
  The constructor: the three look-ups and the import of the network come first, in the
  order of the source (\<open>VpcId\<close>, the network, \<open>PrivateSubnet-0\<close>, \<open>PrivateSubnet-1\<close>), and a
  failure of any of them ends it before anything is declared.
\<close>

definition ExpenseTrackerServices ::
    "Registry \<Rightarrow> Account \<Rightarrow> string \<Rightarrow> error + ServicesStack" where
  "ExpenseTrackerServices registry account dnsName =
     (case valueFromLookup registry [] ''VpcId'' of
        Inl e \<Rightarrow> Inl e
      | Inr (vpcId', scope1) \<Rightarrow>
     (case fromLookup account vpcId' of
        Inl e \<Rightarrow> Inl e
      | Inr v \<Rightarrow>
     (case valueFromLookup registry scope1 ''PrivateSubnet-0'' of
        Inl e \<Rightarrow> Inl e
      | Inr (subnetId1, scope2) \<Rightarrow>
     (case valueFromLookup registry scope2 ''PrivateSubnet-1'' of
        Inl e \<Rightarrow> Inl e
      | Inr (subnetId2, scope3) \<Rightarrow>
          Inr (provision scope3 v subnetId1 subnetId2 dnsName)))))"

section \<open>What the claims observe\<close>

subsection \<open>In the network stack\<close>

text \<open>The NAT gateways declared, each with the subnet it is placed in.\<close>

fun natGatewayIn :: "Resource \<Rightarrow> (string \<times> string) list" where
  "natGatewayIn (CfnNatGateway ident subnet allocation) = [(ident, subnet)]"
| "natGatewayIn r = []"

definition natGatewaysOf :: "NetworkStack \<Rightarrow> (string \<times> string) list" where
  "natGatewaysOf st = concat (map natGatewayIn (resources st))"

fun internetGatewayIn :: "Resource \<Rightarrow> string list" where
  "internetGatewayIn (CfnInternetGateway ident) = [ident]"
| "internetGatewayIn r = []"

definition internetGatewaysOf :: "NetworkStack \<Rightarrow> string list" where
  "internetGatewaysOf st = concat (map internetGatewayIn (resources st))"


text \<open>The targets of the routes to \<open>0.0.0.0/0\<close> declared in a route table.\<close>

fun defaultRouteIn :: "string \<Rightarrow> Resource \<Rightarrow> RouteTarget list" where
  "defaultRouteIn table (CfnRoute ident routeTable destination target) =
     (if routeTable = table \<and> destination = cidrBlock 0 0 0 0 0 then [target] else [])"
| "defaultRouteIn table r = []"

definition defaultRoutes :: "NetworkStack \<Rightarrow> string \<Rightarrow> RouteTarget list" where
  "defaultRoutes st table = concat (map (defaultRouteIn table) (resources st))"



text \<open>
  A private subnet's table has one default route, to a declared NAT gateway that sits
  in a public subnet of the private subnet's zone.
\<close>

definition privateRouteOk :: "NetworkStack \<Rightarrow> Subnet \<Rightarrow> bool" where
  "privateRouteOk st s =
     (case defaultRoutes st (routeTableId s) of
        [NatGatewayId g] \<Rightarrow>
          list_ex (\<lambda>(ident, subnet).
                     ident = g \<and>
                     list_ex (\<lambda>p. subnetId p = subnet \<and>
                                   availabilityZone p = availabilityZone s)
                             (publicSubnets (vpc st)))
                  (natGatewaysOf st)
      | other \<Rightarrow> False)"

text \<open>A public subnet's table has one default route, to the one internet gateway.\<close>

definition publicRouteOk :: "NetworkStack \<Rightarrow> Subnet \<Rightarrow> bool" where
  "publicRouteOk st s =
     (case internetGatewaysOf st of
        [g] \<Rightarrow> defaultRoutes st (routeTableId s) = [GatewayId g]
      | other \<Rightarrow> False)"

subsection \<open>In the services stack\<close>

text \<open>The look-ups cover the published entries when every published key was resolved.\<close>

definition resolvesAll :: "(string \<times> string) list \<Rightarrow> ServicesStack \<Rightarrow> bool" where
  "resolvesAll published st = list_all (\<lambda>k. k \<in> set (lookups st)) (map fst published)"

text \<open>The workload declared under an identifier.\<close>

definition workload :: "ServicesStack \<Rightarrow> string \<Rightarrow> FargateService option" where
  "workload st ident = find (\<lambda>s. serviceId s = ident) (services st)"

subsection \<open>The end-to-end scenario of the spec\<close>

text \<open>
  Scenario 1: the network stack in an environment of two zones. Scenario 2: the services
  stack on the registry that deployment of the first leaves, in the account that holds
  that network. Scenario 3: the same with the key of a private subnet missing.
\<close>

definition scenarioNetwork :: NetworkStack where
  "scenarioNetwork = projr (ExpenseTrackerServicesDeployStack [''us-east-1a'', ''us-east-1b''])"

definition scenarioPublished :: "(string \<times> string) list" where
  "scenarioPublished = publishedParameters (resources scenarioNetwork)"

definition scenarioAccount :: Account where
  "scenarioAccount = map_of [(vpcId (vpc scenarioNetwork), vpc scenarioNetwork)]"

definition scenarioServices :: "error + ServicesStack" where
  "scenarioServices =
     ExpenseTrackerServices (registryOf scenarioPublished) scenarioAccount
       ''nlb.elb.us-east-1.amazonaws.com''"

definition scenarioMissingKey :: "error + ServicesStack" where
  "scenarioMissingKey =
     ExpenseTrackerServices ((registryOf scenarioPublished)(''PrivateSubnet-1'' := None))
       scenarioAccount ''nlb.elb.us-east-1.amazonaws.com''"

section \<open>Evaluation and arithmetic\<close>

lemma showNat_small:
  "showNat 0 = ''0''" "showNat (Suc 0) = ''1''" "showNat 1 = ''1''" "showNat 2 = ''2''"
  "showNat (Suc (Suc 0)) = ''2''"
  by (subst showNat.simps, simp)+

lemma networkSize_24: "networkSize 24 = 256"
  by (simp add: networkSize_def)

lemma roundUp_aligned:
  assumes "0 < k" and "k dvd n"
  shows "roundUp n k = n"
proof -
  from assms(2) obtain q where "n = k * q" ..
  then have n: "n = q * k" by (simp add: mult.commute)
  have "n + k - 1 = (k - 1) + q * k" using assms(1) by (simp add: n)
  moreover have "((k - 1) + q * k) div k = q + (k - 1) div k"
    using assms(1) by (intro div_mult_self1) simp
  moreover have "(k - 1) div k = 0" using assms(1) by simp
  ultimately have "(n + k - 1) div k = q" by simp
  then show ?thesis by (simp add: roundUp_def n)
qed

lemma networkSize_multiple:
  assumes "m \<le> 22"
  shows "1024 dvd networkSize m" and "1024 \<le> networkSize m"
proof -
  have eq: "32 - m = 10 + (22 - m)" using assms by arith
  have "(2::nat) ^ (32 - m) = 2 ^ 10 * 2 ^ (22 - m)"
    unfolding eq by (rule power_add)
  then have e: "networkSize m = 1024 * 2 ^ (22 - m)"
    by (simp add: networkSize_def)
  show "1024 dvd networkSize m" unfolding e by (rule dvd_triv_left)
  have "(1::nat) \<le> 2 ^ (22 - m)" by simp
  then have "1024 * (1::nat) \<le> 1024 * 2 ^ (22 - m)" by (rule mult_le_mono2)
  then show "1024 \<le> networkSize m" unfolding e by simp
qed

lemma allocate_four:
  assumes m: "maskLen block \<le> 22"
      and a: "netAddr block mod networkSize (maskLen block) = 0"
  shows "allocateSubnetsCidr block (netAddr block) [24, 24, 24, 24] =
           Inr [\<lparr>netAddr = netAddr block, maskLen = 24\<rparr>,
                \<lparr>netAddr = netAddr block + 256, maskLen = 24\<rparr>,
                \<lparr>netAddr = netAddr block + 512, maskLen = 24\<rparr>,
                \<lparr>netAddr = netAddr block + 768, maskLen = 24\<rparr>]"
proof -
  have "networkSize (maskLen block) dvd netAddr block" using a by (simp add: dvd_eq_mod_eq_0)
  with networkSize_multiple(1)[OF m] have "1024 dvd netAddr block" by (rule dvd_trans)
  then have d: "256 dvd netAddr block" by (rule dvd_trans[rotated]) simp
  have big: "1024 \<le> networkSize (maskLen block)" by (rule networkSize_multiple(2)[OF m])
  show ?thesis
    using big d by (simp add: networkSize_24 roundUp_aligned Let_def)
qed

lemma block16: "maskLen (cidrBlock 10 0 0 0 16) \<le> 22"
  "netAddr (cidrBlock 10 0 0 0 16) mod networkSize (maskLen (cidrBlock 10 0 0 0 16)) = 0"
  by (simp_all add: cidrBlock_def ipv4_def networkSize_def)

lemma inCidr_anywhere: "inCidr a (cidrBlock 0 0 0 0 0)"
proof -
  have "unat a < 2 ^ 32" using unsigned_less[of a] by simp
  then show ?thesis by (simp add: inCidr_def cidrBlock_def ipv4_def networkSize_def)
qed

section \<open>The network stack, computed\<close>

lemma deployStackWith_two:
  assumes m: "maskLen block \<le> 22"
      and a: "netAddr block mod networkSize (maskLen block) = 0"
  shows "deployStackWith 2 block (z0 # z1 # rest) =
     Inr \<lparr>vpc =
            \<lparr>vpcId = ''myVPC'', vpcCidrBlock = block,
             publicSubnets =
               [\<lparr>subnetId = ''public-subnetSubnet1'', availabilityZone = z0,
                 ipv4CidrBlock = \<lparr>netAddr = netAddr block, maskLen = 24\<rparr>,
                 routeTableId = ''public-subnetSubnet1/RouteTable'', placement = PUBLIC\<rparr>,
                \<lparr>subnetId = ''public-subnetSubnet2'', availabilityZone = z1,
                 ipv4CidrBlock = \<lparr>netAddr = netAddr block + 256, maskLen = 24\<rparr>,
                 routeTableId = ''public-subnetSubnet2/RouteTable'', placement = PUBLIC\<rparr>],
             privateSubnets =
               [\<lparr>subnetId = ''private-subnetSubnet1'', availabilityZone = z0,
                 ipv4CidrBlock = \<lparr>netAddr = netAddr block + 512, maskLen = 24\<rparr>,
                 routeTableId = ''private-subnetSubnet1/RouteTable'',
                 placement = PRIVATE_WITH_EGRESS\<rparr>,
                \<lparr>subnetId = ''private-subnetSubnet2'', availabilityZone = z1,
                 ipv4CidrBlock = \<lparr>netAddr = netAddr block + 768, maskLen = 24\<rparr>,
                 routeTableId = ''private-subnetSubnet2/RouteTable'',
                 placement = PRIVATE_WITH_EGRESS\<rparr>]\<rparr>,
          resources =
            [CfnInternetGateway ''InternetGateway'',
             CfnVPCGatewayAttachment ''MyUniqueVPCGatewayAttachment'' ''myVPC''
               ''InternetGateway'',
             CfnEIP ''EIPForNatGatewayOne'',
             CfnNatGateway ''NatGatewayOne'' ''public-subnetSubnet1'' ''EIPForNatGatewayOne'',
             CfnEIP ''EIPForNatGatewayTwo'',
             CfnNatGateway ''NatGatewayTwo'' ''public-subnetSubnet2'' ''EIPForNatGatewayTwo'',
             CfnRoute ''PrivateRouteToNatGateway-0'' ''private-subnetSubnet1/RouteTable''
               \<lparr>netAddr = 0, maskLen = 0\<rparr> (NatGatewayId ''NatGatewayOne''),
             CfnRoute ''PrivateRouteToNatGateway-1'' ''private-subnetSubnet2/RouteTable''
               \<lparr>netAddr = 0, maskLen = 0\<rparr> (NatGatewayId ''NatGatewayTwo''),
             CfnRoute ''PublicRouteToInternetGateway-0'' ''public-subnetSubnet1/RouteTable''
               \<lparr>netAddr = 0, maskLen = 0\<rparr> (GatewayId ''InternetGateway''),
             CfnRoute ''PublicRouteToInternetGateway-1'' ''public-subnetSubnet2/RouteTable''
               \<lparr>netAddr = 0, maskLen = 0\<rparr> (GatewayId ''InternetGateway''),
             StringParameter ''VpcIdExport'' ''VpcId'' ''myVPC'',
             StringParameter ''PublicSubnetExport-0'' ''PublicSubnet-0'' ''public-subnetSubnet1'',
             StringParameter ''PublicSubnetExport-1'' ''PublicSubnet-1'' ''public-subnetSubnet2'',
             StringParameter ''PrivateSubnetExport-0'' ''PrivateSubnet-0''
               ''private-subnetSubnet1'',
             StringParameter ''PrivateSubnetExport-1'' ''PrivateSubnet-1''
               ''private-subnetSubnet2'']\<rparr>"
  by (simp add: deployStackWith_def newVpc_def allocate_four[OF m a] createSubnet_def
        elementAt_def withIndex_def showNat_small cidrBlock_def ipv4_def Let_def
      del: allocateSubnetsCidr.simps)

lemma at_least_two_cases:
  assumes "2 \<le> length zs"
  obtains z0 z1 rest where "zs = z0 # z1 # rest"
proof (cases zs)
  case Nil
  with assms show ?thesis by simp
next
  case (Cons z0 tl1)
  note outer = Cons
  show ?thesis
  proof (cases tl1)
    case Nil
    with assms outer show ?thesis by simp
  next
    case (Cons z1 rest)
    with outer that show ?thesis by simp
  qed
qed

lemma deployStackWith_no_zone:
  "deployStackWith 2 block [] \<noteq> Inr st"
  by (simp add: deployStackWith_def newVpc_def elementAt_def Let_def split: sum.splits)

lemma deployStackWith_one_zone:
  "deployStackWith 2 block [z0] \<noteq> Inr st"
  by (simp add: deployStackWith_def newVpc_def elementAt_def createSubnet_def Let_def
      split: sum.splits)

lemma deployStackWith_needs_two_zones:
  assumes "deployStackWith 2 block zs = Inr st"
  shows "2 \<le> length zs"
proof (cases zs)
  case Nil
  with assms deployStackWith_no_zone show ?thesis by blast
next
  case (Cons z0 tl1)
  with assms deployStackWith_one_zone show ?thesis by (cases tl1) auto
qed

section \<open>The services stack, computed\<close>

lemma services_success:
  assumes "ExpenseTrackerServices registry account dnsName = Inr st"
  obtains vid v s1 s2 where
    "registry ''VpcId'' = Some vid" "account vid = Some v"
    "registry ''PrivateSubnet-0'' = Some s1" "registry ''PrivateSubnet-1'' = Some s2"
    "st = provision [''VpcId'', ''PrivateSubnet-0'', ''PrivateSubnet-1''] v s1 s2 dnsName"
  using assms
  by (auto simp: ExpenseTrackerServices_def valueFromLookup_def fromLookup_def
      split: option.splits)

lemma provision_securityGroup:
  "ingressRules (dbSecurityGroup (provision scope v s1 s2 d)) =
     [\<lparr>peer = vpcCidrBlock v, connection = tcp 3306, description = ''Allow MySQL traffic''\<rparr>,
      \<lparr>peer = vpcCidrBlock v, connection = tcp 9092, description = ''Allow Kafka traffic''\<rparr>,
      \<lparr>peer = vpcCidrBlock v, connection = tcp 2181,
       description = ''Allow Kafka to access Zookeeper''\<rparr>]"
  "egressRules (dbSecurityGroup (provision scope v s1 s2 d)) =
     [\<lparr>peer = cidrBlock 0 0 0 0 0, connection = allTraffic,
       description = ''Allow all outbound traffic by default''\<rparr>]"
  by (simp_all add: provision_def Let_def addIngressRule_def newSecurityGroup_def)

lemma provision_simple:
  "lookups (provision scope v s1 s2 d) = scope"
  "importedVpc (provision scope v s1 s2 d) = v"
  "privateSubnet1 (provision scope v s1 s2 d) = fromSubnetId ''PrivateSubnet1'' s1"
  "privateSubnet2 (provision scope v s1 s2 d) = fromSubnetId ''PrivateSubnet2'' s2"
  "parameters (provision scope v s1 s2 d) =
     [StringParameter ''ExpenseTrackerServicesNLB'' ''ExpenseTrackerServicesNLB'' d]"
  "loadBalancerDnsName (nlb (provision scope v s1 s2 d)) = d"
  by (simp_all add: provision_def Let_def addListener_def)

lemma provision_services:
  "map serviceId (services (provision scope v s1 s2 d)) =
     [''MySQLService'', ''ZookeeperService'', ''KafkaService'']"
  "map desiredCount (services (provision scope v s1 s2 d)) = [1, 3, 3]"
  "map vpcSubnets (services (provision scope v s1 s2 d)) =
     replicate 3 [fromSubnetId ''PrivateSubnet1'' s1, fromSubnetId ''PrivateSubnet2'' s2]"
  by (simp_all add: provision_def Let_def numeral_3_eq_3)

lemma provision_listeners:
  "map listenerPort (listeners (nlb (provision scope v s1 s2 d))) = [3306, 9092]"
  "map (\<lambda>l. map targets (defaultTargetGroups l)) (listeners (nlb (provision scope v s1 s2 d))) =
     [[[''MySQLService'']], [[''KafkaService'']]]"
  by (simp_all add: provision_def Let_def addListener_def addTarget_def)

lemma provision_broker:
  "\<exists>k. workload (provision scope v s1 s2 d) ''KafkaService'' = Some k
       \<and> desiredCount k = 3
       \<and> replicaEnvironment (taskDefinition k) ''KAFKA_BROKER_ID'' = Some ''1''
       \<and> replicaEnvironment (taskDefinition k) ''KAFKA_BROKER_RACK'' = Some ''RACK1''
       \<and> replicaEnvironment (taskDefinition k) ''KAFKA_ADVERTISED_LISTENERS''
           = Some (''PLAINTEXT://'' @ d @ '':9092'')"
  by (simp add: workload_def provision_def Let_def addContainer_def replicaEnvironment_def)

section \<open>The scenario, computed\<close>

lemma scenarioNetwork_eq:
  "ExpenseTrackerServicesDeployStack [''us-east-1a'', ''us-east-1b''] = Inr scenarioNetwork"
  unfolding scenarioNetwork_def ExpenseTrackerServicesDeployStack_def
    deployStackWith_two[OF block16] by simp

lemma scenarioPublished_eq:
  "scenarioPublished =
     [(''VpcId'', ''myVPC''),
      (''PublicSubnet-0'', ''public-subnetSubnet1''),
      (''PublicSubnet-1'', ''public-subnetSubnet2''),
      (''PrivateSubnet-0'', ''private-subnetSubnet1''),
      (''PrivateSubnet-1'', ''private-subnetSubnet2'')]"
  unfolding scenarioPublished_def scenarioNetwork_def ExpenseTrackerServicesDeployStack_def
    deployStackWith_two[OF block16] by (simp add: publishedParameters_def)

lemma scenarioVpc_eq:
  "vpcId (vpc scenarioNetwork) = ''myVPC''"
  "vpcCidrBlock (vpc scenarioNetwork) = cidrBlock 10 0 0 0 16"
  unfolding scenarioNetwork_def ExpenseTrackerServicesDeployStack_def
    deployStackWith_two[OF block16] by simp_all

lemma scenarioServices_eq:
  "scenarioServices =
     Inr (provision [''VpcId'', ''PrivateSubnet-0'', ''PrivateSubnet-1''] (vpc scenarioNetwork)
            ''private-subnetSubnet1'' ''private-subnetSubnet2''
            ''nlb.elb.us-east-1.amazonaws.com'')"
  by (simp add: scenarioServices_def ExpenseTrackerServices_def valueFromLookup_def
        fromLookup_def registryOf_def scenarioPublished_eq scenarioAccount_def scenarioVpc_eq)

lemma scenarioServices_ok: "scenarioServices = Inr (projr scenarioServices)"
  by (simp add: scenarioServices_eq)

lemma scenario_range:
  "vpcCidrBlock (importedVpc (projr scenarioServices)) = cidrBlock 10 0 0 0 16"
  by (simp add: scenarioServices_eq provision_simple scenarioVpc_eq)

section \<open>The network provisioner\<close>




text \<open>
  Claim C2. With two zones and the block \<open>10.0.0.0/16\<close> the stack is built; its public
  subnets are \<open>10.0.0.0/24\<close> and \<open>10.0.1.0/24\<close>, its private subnets \<open>10.0.2.0/24\<close> and
  \<open>10.0.3.0/24\<close>; it has two NAT gateways and one internet gateway; and it publishes
  five registry entries: the network's identifier under \<open>VpcId\<close> and the four subnets'
  identifiers under \<open>PublicSubnet-0\<close>, \<open>PublicSubnet-1\<close>, \<open>PrivateSubnet-0\<close> and
  \<open>PrivateSubnet-1\<close>.
\<close>

theorem network_scenario:
  assumes "2 \<le> length stackZones"
  shows "\<exists>st. ExpenseTrackerServicesDeployStack stackZones = Inr st \<and>
     map ipv4CidrBlock (publicSubnets (vpc st)) = [cidrBlock 10 0 0 0 24, cidrBlock 10 0 1 0 24] \<and>
     map ipv4CidrBlock (privateSubnets (vpc st)) = [cidrBlock 10 0 2 0 24, cidrBlock 10 0 3 0 24] \<and>
     length (natGatewaysOf st) = 2 \<and>
     length (internetGatewaysOf st) = 1 \<and>
     publishedParameters (resources st) =
       [(''VpcId'', vpcId (vpc st)),
        (''PublicSubnet-0'', subnetId (publicSubnets (vpc st) ! 0)),
        (''PublicSubnet-1'', subnetId (publicSubnets (vpc st) ! 1)),
        (''PrivateSubnet-0'', subnetId (privateSubnets (vpc st) ! 0)),
        (''PrivateSubnet-1'', subnetId (privateSubnets (vpc st) ! 1))]"
proof -
  from assms obtain z0 z1 rest where zs: "stackZones = z0 # z1 # rest"
    by (rule at_least_two_cases)
  show ?thesis
    unfolding zs ExpenseTrackerServicesDeployStack_def deployStackWith_two[OF block16]
    by (simp add: natGatewaysOf_def internetGatewaysOf_def publishedParameters_def
          cidrBlock_def ipv4_def)
qed

theorem network_scenario_witness:
  "2 \<le> length [''us-east-1a'', ''us-east-1b''] \<and>
   (\<exists>st. ExpenseTrackerServicesDeployStack [''us-east-1a'', ''us-east-1b''] = Inr st \<and>
     map ipv4CidrBlock (publicSubnets (vpc st)) = [cidrBlock 10 0 0 0 24, cidrBlock 10 0 1 0 24] \<and>
     map ipv4CidrBlock (privateSubnets (vpc st)) = [cidrBlock 10 0 2 0 24, cidrBlock 10 0 3 0 24] \<and>
     length (natGatewaysOf st) = 2 \<and>
     length (internetGatewaysOf st) = 1 \<and>
     publishedParameters (resources st) =
       [(''VpcId'', vpcId (vpc st)),
        (''PublicSubnet-0'', subnetId (publicSubnets (vpc st) ! 0)),
        (''PublicSubnet-1'', subnetId (publicSubnets (vpc st) ! 1)),
        (''PrivateSubnet-0'', subnetId (privateSubnets (vpc st) ! 0)),
        (''PrivateSubnet-1'', subnetId (privateSubnets (vpc st) ! 1))])"
  using network_scenario[of "[''us-east-1a'', ''us-east-1b'']"] by simp

text \<open>
  Claim C3. In every network the stack produces, each private subnet's route table has
  exactly one route to \<open>0.0.0.0/0\<close>, and its target is a declared NAT gateway placed in
  a public subnet of the same availability zone; each public subnet's route table has
  exactly one route to \<open>0.0.0.0/0\<close>, and its target is the one internet gateway. There
  are two subnets of each kind, so neither statement is empty.
\<close>

theorem default_routes:
  assumes "ExpenseTrackerServicesDeployStack stackZones = Inr st"
  shows "list_all (privateRouteOk st) (privateSubnets (vpc st)) \<and>
         list_all (publicRouteOk st) (publicSubnets (vpc st)) \<and>
         length (privateSubnets (vpc st)) = 2 \<and>
         length (publicSubnets (vpc st)) = 2"
proof -
  from assms have "2 \<le> length stackZones"
    unfolding ExpenseTrackerServicesDeployStack_def by (rule deployStackWith_needs_two_zones)
  then obtain z0 z1 rest where zs: "stackZones = z0 # z1 # rest"
    by (rule at_least_two_cases)
  from assms have st: "st = projr (ExpenseTrackerServicesDeployStack stackZones)" by simp
  show ?thesis
    unfolding st zs ExpenseTrackerServicesDeployStack_def deployStackWith_two[OF block16]
    by (simp add: privateRouteOk_def publicRouteOk_def defaultRoutes_def natGatewaysOf_def
          internetGatewaysOf_def cidrBlock_def ipv4_def)
qed

theorem default_routes_witness:
  "ExpenseTrackerServicesDeployStack [''us-east-1a'', ''us-east-1b'']
     = Inr (projr (ExpenseTrackerServicesDeployStack [''us-east-1a'', ''us-east-1b''])) \<and>
   list_all (privateRouteOk (projr (ExpenseTrackerServicesDeployStack [''us-east-1a'', ''us-east-1b''])))
     (privateSubnets (vpc (projr (ExpenseTrackerServicesDeployStack [''us-east-1a'', ''us-east-1b''])))) \<and>
   list_all (publicRouteOk (projr (ExpenseTrackerServicesDeployStack [''us-east-1a'', ''us-east-1b''])))
     (publicSubnets (vpc (projr (ExpenseTrackerServicesDeployStack [''us-east-1a'', ''us-east-1b'']))))"
proof -
  have ok: "ExpenseTrackerServicesDeployStack [''us-east-1a'', ''us-east-1b'']
     = Inr (projr (ExpenseTrackerServicesDeployStack [''us-east-1a'', ''us-east-1b'']))"
    unfolding ExpenseTrackerServicesDeployStack_def deployStackWith_two[OF block16] by simp
  from default_routes[OF ok] ok show ?thesis by simp
qed

section \<open>The workload provisioner\<close>

text \<open>
  Claim C4. The security group of the services stack lets traffic in exactly when it is
  TCP, to port 3306, 9092 or 2181, and from an address of the imported network's range
  (the range of the network that the account holds under the registry's \<open>VpcId\<close>); it
  lets all traffic out.
\<close>

theorem security_boundary:
  assumes "ExpenseTrackerServices registry account dnsName = Inr st"
  shows "(permitsInbound (dbSecurityGroup st) proto p src \<longleftrightarrow>
            proto = TCP \<and> p \<in> {3306, 9092, 2181} \<and> inCidr src (vpcCidrBlock (importedVpc st)))
         \<and> permitsOutbound (dbSecurityGroup st) proto p dst
         \<and> (\<exists>vid. registry ''VpcId'' = Some vid \<and> account vid = Some (importedVpc st))"
proof -
  from assms obtain vid v s1 s2 where
    r: "registry ''VpcId'' = Some vid" "account vid = Some v"
    and st: "st = provision [''VpcId'', ''PrivateSubnet-0'', ''PrivateSubnet-1''] v s1 s2 dnsName"
    by (rule services_success)
  have "permitsInbound (dbSecurityGroup st) proto p src \<longleftrightarrow>
          proto = TCP \<and> p \<in> {3306, 9092, 2181} \<and> inCidr src (vpcCidrBlock (importedVpc st))"
    unfolding st permitsInbound_def provision_securityGroup provision_simple
    by (auto simp: ruleAllows_def tcp_def)
  moreover have "permitsOutbound (dbSecurityGroup st) proto p dst"
    unfolding st permitsOutbound_def provision_securityGroup
    by (simp add: ruleAllows_def allTraffic_def inCidr_anywhere)
  moreover have "\<exists>vid. registry ''VpcId'' = Some vid \<and> account vid = Some (importedVpc st)"
    using r unfolding st provision_simple by simp
  ultimately show ?thesis by blast
qed

theorem security_boundary_witness:
  "scenarioServices = Inr (projr scenarioServices) \<and>
   permitsInbound (dbSecurityGroup (projr scenarioServices)) TCP 3306 167772677 \<and>
   permitsInbound (dbSecurityGroup (projr scenarioServices)) TCP 2181 167837695 \<and>
   \<not> permitsInbound (dbSecurityGroup (projr scenarioServices)) TCP 22 167772677 \<and>
   \<not> permitsInbound (dbSecurityGroup (projr scenarioServices)) UDP 9092 167772677 \<and>
   \<not> permitsInbound (dbSecurityGroup (projr scenarioServices)) TCP 3306 3232235777 \<and>
   permitsOutbound (dbSecurityGroup (projr scenarioServices)) UDP 53 134744072"
proof -
  note ok = scenarioServices_ok[unfolded scenarioServices_def]
  note b = security_boundary[OF ok, folded scenarioServices_def]
  have inside: "inCidr 167772677 (cidrBlock 10 0 0 0 16)" "inCidr 167837695 (cidrBlock 10 0 0 0 16)"
    and outside: "\<not> inCidr 3232235777 (cidrBlock 10 0 0 0 16)"
    by (simp_all add: inCidr_def cidrBlock_def ipv4_def networkSize_def)
  show ?thesis
    using b[where proto=TCP and p=3306 and src=167772677 and dst=134744072]
      b[where proto=TCP and p=2181 and src=167837695 and dst=134744072]
      b[where proto=TCP and p=22 and src=167772677 and dst=134744072]
      b[where proto=UDP and p=9092 and src=167772677 and dst=134744072]
      b[where proto=TCP and p=3306 and src=3232235777 and dst=134744072]
      b[where proto=UDP and p=53 and src=167772677 and dst=134744072]
      inside outside scenarioServices_ok
    by (simp add: scenario_range)
qed

text \<open>
  Claim C5. The services stack declares exactly three workloads, for the database, the
  coordination service and the broker, with desired counts 1, 3 and 3; its load
  balancer has exactly two listeners, on ports 3306 and 9092, each with exactly one
  target group, whose one target is the database workload and the broker workload
  respectively; no listener is on port 2181.
\<close>

theorem workloads_and_listeners:
  assumes "ExpenseTrackerServices registry account dnsName = Inr st"
  shows "map serviceId (services st) = [''MySQLService'', ''ZookeeperService'', ''KafkaService'']
         \<and> map desiredCount (services st) = [1, 3, 3]
         \<and> map listenerPort (listeners (nlb st)) = [3306, 9092]
         \<and> map (\<lambda>l. map targets (defaultTargetGroups l)) (listeners (nlb st)) =
             [[[''MySQLService'']], [[''KafkaService'']]]
         \<and> 2181 \<notin> set (map listenerPort (listeners (nlb st)))"
proof -
  from assms obtain v s1 s2 where
    st: "st = provision [''VpcId'', ''PrivateSubnet-0'', ''PrivateSubnet-1''] v s1 s2 dnsName"
    by (rule services_success)
  show ?thesis unfolding st provision_services provision_listeners by simp
qed

theorem workloads_and_listeners_witness:
  "scenarioServices = Inr (projr scenarioServices)
   \<and> map serviceId (services (projr scenarioServices)) =
       [''MySQLService'', ''ZookeeperService'', ''KafkaService'']
   \<and> map desiredCount (services (projr scenarioServices)) = [1, 3, 3]
   \<and> map listenerPort (listeners (nlb (projr scenarioServices))) = [3306, 9092]"
  using workloads_and_listeners[OF scenarioServices_ok[unfolded scenarioServices_def],
          folded scenarioServices_def] scenarioServices_ok
  by simp

text \<open>
  Claim C6, as the code has it. The services stack resolves three registry keys before
  it declares anything, \<open>VpcId\<close>, \<open>PrivateSubnet-0\<close> and \<open>PrivateSubnet-1\<close>, in this
  order, and imports its two subnets by the values of the last two. It does not look up
  the keys of the public subnets.
\<close>

theorem three_lookups:
  assumes "ExpenseTrackerServices registry account dnsName = Inr st"
  shows "lookups st = [''VpcId'', ''PrivateSubnet-0'', ''PrivateSubnet-1'']
         \<and> registry ''VpcId'' \<noteq> None
         \<and> registry ''PrivateSubnet-0'' = Some (importedSubnetId (privateSubnet1 st))
         \<and> registry ''PrivateSubnet-1'' = Some (importedSubnetId (privateSubnet2 st))"
proof -
  from assms obtain vid v s1 s2 where
    r: "registry ''VpcId'' = Some vid" "registry ''PrivateSubnet-0'' = Some s1"
       "registry ''PrivateSubnet-1'' = Some s2"
    and st: "st = provision [''VpcId'', ''PrivateSubnet-0'', ''PrivateSubnet-1''] v s1 s2 dnsName"
    by (rule services_success)
  show ?thesis unfolding st provision_simple using r by (simp add: fromSubnetId_def)
qed

theorem three_lookups_witness:
  "scenarioServices = Inr (projr scenarioServices)
   \<and> lookups (projr scenarioServices) = [''VpcId'', ''PrivateSubnet-0'', ''PrivateSubnet-1'']
   \<and> importedSubnetId (privateSubnet1 (projr scenarioServices)) = ''private-subnetSubnet1''
   \<and> importedSubnetId (privateSubnet2 (projr scenarioServices)) = ''private-subnetSubnet2''"
  using three_lookups[OF scenarioServices_ok[unfolded scenarioServices_def],
          folded scenarioServices_def] scenarioServices_ok
  by (simp add: registryOf_def scenarioPublished_eq)

text \<open>
  In the scenario of the spec the network stack publishes five entries and the services
  stack resolves three of them: not every published key is looked up, and
  \<open>PublicSubnet-0\<close> is among those that are not.
\<close>

theorem lookups_counterexample:
  "scenarioServices = Inr (projr scenarioServices)
   \<and> \<not> resolvesAll scenarioPublished (projr scenarioServices)
   \<and> length (lookups (projr scenarioServices)) = 3
   \<and> length scenarioPublished = 5
   \<and> ''PublicSubnet-0'' \<notin> set (lookups (projr scenarioServices))"
  by (simp add: scenarioServices_eq provision_simple resolvesAll_def scenarioPublished_eq)

text \<open>
  Claim C7. When one of the registry keys the services stack resolves (\<open>VpcId\<close>,
  \<open>PrivateSubnet-0\<close>, \<open>PrivateSubnet-1\<close>) is absent, construction ends in an error:
  there is no stack, hence no declared resource.
\<close>

theorem missing_key_stops:
  assumes "registry ''VpcId'' = None \<or> registry ''PrivateSubnet-0'' = None
           \<or> registry ''PrivateSubnet-1'' = None"
  shows "isl (ExpenseTrackerServices registry account dnsName)"
  using assms
  by (auto simp: ExpenseTrackerServices_def valueFromLookup_def fromLookup_def
      split: option.splits)

theorem missing_key_stops_witness:
  "((registryOf scenarioPublished)(''PrivateSubnet-1'' := None)) ''PrivateSubnet-1'' = None
   \<and> isl scenarioMissingKey
   \<and> scenarioMissingKey = Inl (ParameterNotFound ''PrivateSubnet-1'')"
proof -
  have "scenarioMissingKey = Inl (ParameterNotFound ''PrivateSubnet-1'')"
    by (simp add: scenarioMissingKey_def ExpenseTrackerServices_def valueFromLookup_def
          fromLookup_def registryOf_def scenarioPublished_eq scenarioAccount_def scenarioVpc_eq)
  moreover have "isl scenarioMissingKey"
    unfolding scenarioMissingKey_def
    by (rule missing_key_stops) simp
  ultimately show ?thesis by simp
qed

text \<open>
  Claim C8. On the registry that the network stack leaves, each of the three workloads
  of the services stack is placed in subnets whose identifiers are identifiers of
  private subnets of that network, and none of them is the identifier of one of its
  public subnets.
\<close>

theorem workloads_in_private_subnets:
  assumes net: "ExpenseTrackerServicesDeployStack stackZones = Inr net"
      and svc: "ExpenseTrackerServices (registryOf (publishedParameters (resources net)))
                  account dnsName = Inr st"
  shows "length (services st) = 3 \<and>
         (\<forall>s \<in> set (services st).
            vpcSubnets s \<noteq> [] \<and>
            set (map importedSubnetId (vpcSubnets s))
              \<subseteq> set (map subnetId (privateSubnets (vpc net))) \<and>
            set (map importedSubnetId (vpcSubnets s))
              \<inter> set (map subnetId (publicSubnets (vpc net))) = {})"
proof -
  from net have "2 \<le> length stackZones"
    unfolding ExpenseTrackerServicesDeployStack_def by (rule deployStackWith_needs_two_zones)
  then obtain z0 z1 rest where zs: "stackZones = z0 # z1 # rest"
    by (rule at_least_two_cases)
  from net have n: "net = projr (ExpenseTrackerServicesDeployStack stackZones)" by simp
  have pub: "map subnetId (publicSubnets (vpc net)) =
               [''public-subnetSubnet1'', ''public-subnetSubnet2'']"
    and priv: "map subnetId (privateSubnets (vpc net)) =
               [''private-subnetSubnet1'', ''private-subnetSubnet2'']"
    and reg: "publishedParameters (resources net) =
               [(''VpcId'', ''myVPC''),
                (''PublicSubnet-0'', ''public-subnetSubnet1''),
                (''PublicSubnet-1'', ''public-subnetSubnet2''),
                (''PrivateSubnet-0'', ''private-subnetSubnet1''),
                (''PrivateSubnet-1'', ''private-subnetSubnet2'')]"
    unfolding n zs ExpenseTrackerServicesDeployStack_def deployStackWith_two[OF block16]
    by (simp_all add: publishedParameters_def)
  from svc obtain v s1 s2 where
    r: "registryOf (publishedParameters (resources net)) ''PrivateSubnet-0'' = Some s1"
       "registryOf (publishedParameters (resources net)) ''PrivateSubnet-1'' = Some s2"
    and st: "st = provision [''VpcId'', ''PrivateSubnet-0'', ''PrivateSubnet-1''] v s1 s2 dnsName"
    by (rule services_success)
  from r have s: "s1 = ''private-subnetSubnet1''" "s2 = ''private-subnetSubnet2''"
    by (simp_all add: registryOf_def reg)
  have placed: "map vpcSubnets (services st) =
      replicate 3 [fromSubnetId ''PrivateSubnet1'' s1, fromSubnetId ''PrivateSubnet2'' s2]"
    unfolding st by (rule provision_services)
  have len: "length (services st) = 3"
    unfolding st using provision_services(1)[of _ v s1 s2 dnsName, THEN arg_cong, of length]
    by simp
  have "\<forall>s \<in> set (services st).
          vpcSubnets s = [fromSubnetId ''PrivateSubnet1'' s1, fromSubnetId ''PrivateSubnet2'' s2]"
  proof
    fix s assume "s \<in> set (services st)"
    then have "vpcSubnets s \<in> set (map vpcSubnets (services st))" by simp
    then show "vpcSubnets s = [fromSubnetId ''PrivateSubnet1'' s1, fromSubnetId ''PrivateSubnet2'' s2]"
      unfolding placed by simp
  qed
  then show ?thesis
    using len by (simp add: pub priv s fromSubnetId_def)
qed

theorem workloads_in_private_subnets_witness:
  "ExpenseTrackerServicesDeployStack [''us-east-1a'', ''us-east-1b''] = Inr scenarioNetwork
   \<and> scenarioServices = Inr (projr scenarioServices)
   \<and> length (services (projr scenarioServices)) = 3
   \<and> map (\<lambda>s. map importedSubnetId (vpcSubnets s)) (services (projr scenarioServices)) =
       replicate 3 [''private-subnetSubnet1'', ''private-subnetSubnet2'']
   \<and> map subnetId (publicSubnets (vpc scenarioNetwork)) =
       [''public-subnetSubnet1'', ''public-subnetSubnet2'']"
proof -
  note ok = scenarioServices_ok[unfolded scenarioServices_def scenarioPublished_def]
  from workloads_in_private_subnets[OF scenarioNetwork_eq ok,
         folded scenarioPublished_def, folded scenarioServices_def]
  have len: "length (services (projr scenarioServices)) = 3"
    by (rule conjunct1)
  have placed: "map (\<lambda>s. map importedSubnetId (vpcSubnets s)) (services (projr scenarioServices)) =
       replicate 3 [''private-subnetSubnet1'', ''private-subnetSubnet2'']"
    by (simp add: scenarioServices_eq provision_def Let_def fromSubnetId_def numeral_3_eq_3)
  have pub: "map subnetId (publicSubnets (vpc scenarioNetwork)) =
       [''public-subnetSubnet1'', ''public-subnetSubnet2'']"
    unfolding scenarioNetwork_def ExpenseTrackerServicesDeployStack_def
      deployStackWith_two[OF block16] by simp
  from scenarioNetwork_eq scenarioServices_ok len placed pub show ?thesis
    by (intro conjI)
qed

text \<open>
  Claim C9. The services stack publishes one registry entry, the load balancer's address
  under the key \<open>ExpenseTrackerServicesNLB\<close>, and the broker workload's environment
  has \<open>KAFKA_ADVERTISED_LISTENERS\<close> set to \<open>PLAINTEXT://\<close>, that same address, and
  \<open>:9092\<close>.
\<close>

theorem endpoint_address:
  assumes "ExpenseTrackerServices registry account dnsName = Inr st"
  shows "loadBalancerDnsName (nlb st) = dnsName
         \<and> publishedParameters (parameters st) =
             [(''ExpenseTrackerServicesNLB'', loadBalancerDnsName (nlb st))]
         \<and> (\<exists>k. workload st ''KafkaService'' = Some k
                \<and> replicaEnvironment (taskDefinition k) ''KAFKA_ADVERTISED_LISTENERS''
                    = Some (''PLAINTEXT://'' @ loadBalancerDnsName (nlb st) @ '':9092''))"
proof -
  from assms obtain v s1 s2 where
    st: "st = provision [''VpcId'', ''PrivateSubnet-0'', ''PrivateSubnet-1''] v s1 s2 dnsName"
    by (rule services_success)
  from provision_broker[of "[''VpcId'', ''PrivateSubnet-0'', ''PrivateSubnet-1'']" v s1 s2 dnsName]
  show ?thesis
    unfolding st provision_simple by (auto simp: publishedParameters_def)
qed

theorem endpoint_address_witness:
  "scenarioServices = Inr (projr scenarioServices)
   \<and> publishedParameters (parameters (projr scenarioServices)) =
       [(''ExpenseTrackerServicesNLB'', ''nlb.elb.us-east-1.amazonaws.com'')]
   \<and> (\<exists>k. workload (projr scenarioServices) ''KafkaService'' = Some k
          \<and> replicaEnvironment (taskDefinition k) ''KAFKA_ADVERTISED_LISTENERS''
              = Some ''PLAINTEXT://nlb.elb.us-east-1.amazonaws.com:9092'')"
proof -
  from endpoint_address[OF scenarioServices_ok[unfolded scenarioServices_def],
          folded scenarioServices_def]
  obtain k where d: "loadBalancerDnsName (nlb (projr scenarioServices))
                       = ''nlb.elb.us-east-1.amazonaws.com''"
    and p: "publishedParameters (parameters (projr scenarioServices)) =
             [(''ExpenseTrackerServicesNLB'', loadBalancerDnsName (nlb (projr scenarioServices)))]"
    and k: "workload (projr scenarioServices) ''KafkaService'' = Some k"
           "replicaEnvironment (taskDefinition k) ''KAFKA_ADVERTISED_LISTENERS''
              = Some (''PLAINTEXT://'' @ loadBalancerDnsName (nlb (projr scenarioServices))
                      @ '':9092'')"
    by blast
  from k(2) have e: "replicaEnvironment (taskDefinition k) ''KAFKA_ADVERTISED_LISTENERS''
              = Some ''PLAINTEXT://nlb.elb.us-east-1.amazonaws.com:9092''"
    unfolding d by simp
  have "\<exists>k. workload (projr scenarioServices) ''KafkaService'' = Some k
          \<and> replicaEnvironment (taskDefinition k) ''KAFKA_ADVERTISED_LISTENERS''
              = Some ''PLAINTEXT://nlb.elb.us-east-1.amazonaws.com:9092''"
    using k(1) e by (intro exI conjI)
  moreover note scenarioServices_ok p[unfolded d]
  ultimately show ?thesis by (intro conjI)
qed

text \<open>
  Claim C10. The broker workload has three replicas. Whatever its desired count, every
  replica is the workload's one task definition, with the broker identifier \<open>1\<close> and the
  rack identifier \<open>RACK1\<close> in its environment.
\<close>

theorem broker_replicas_identical:
  assumes "ExpenseTrackerServices registry account dnsName = Inr st"
  shows "\<exists>k. workload st ''KafkaService'' = Some k
           \<and> length (replicas k) = 3
           \<and> (\<forall>n. \<forall>r \<in> set (replicas (k\<lparr>desiredCount := n\<rparr>)).
                  r = taskDefinition k
                  \<and> replicaEnvironment r ''KAFKA_BROKER_ID'' = Some ''1''
                  \<and> replicaEnvironment r ''KAFKA_BROKER_RACK'' = Some ''RACK1'')"
proof -
  from assms obtain v s1 s2 where
    st: "st = provision [''VpcId'', ''PrivateSubnet-0'', ''PrivateSubnet-1''] v s1 s2 dnsName"
    by (rule services_success)
  from provision_broker[of "[''VpcId'', ''PrivateSubnet-0'', ''PrivateSubnet-1'']" v s1 s2 dnsName]
  obtain k where k: "workload st ''KafkaService'' = Some k" "desiredCount k = 3"
    "replicaEnvironment (taskDefinition k) ''KAFKA_BROKER_ID'' = Some ''1''"
    "replicaEnvironment (taskDefinition k) ''KAFKA_BROKER_RACK'' = Some ''RACK1''"
    unfolding st by blast
  have "length (replicas k) = 3" by (simp add: replicas_def k)
  moreover have "\<forall>n. \<forall>r \<in> set (replicas (k\<lparr>desiredCount := n\<rparr>)).
                  r = taskDefinition k
                  \<and> replicaEnvironment r ''KAFKA_BROKER_ID'' = Some ''1''
                  \<and> replicaEnvironment r ''KAFKA_BROKER_RACK'' = Some ''RACK1''"
    by (auto simp: replicas_def k)
  ultimately show ?thesis using k(1) by blast
qed

theorem broker_replicas_identical_witness:
  "scenarioServices = Inr (projr scenarioServices)
   \<and> (\<exists>k. workload (projr scenarioServices) ''KafkaService'' = Some k
          \<and> map (\<lambda>r. replicaEnvironment r ''KAFKA_BROKER_ID'') (replicas k)
              = [Some ''1'', Some ''1'', Some ''1'']
          \<and> map (\<lambda>r. replicaEnvironment r ''KAFKA_BROKER_RACK'') (replicas k)
              = [Some ''RACK1'', Some ''RACK1'', Some ''RACK1''])"
proof -
  from broker_replicas_identical[OF scenarioServices_ok[unfolded scenarioServices_def],
          folded scenarioServices_def]
  obtain k where k: "workload (projr scenarioServices) ''KafkaService'' = Some k"
    "length (replicas k) = 3"
    "\<forall>r \<in> set (replicas (k\<lparr>desiredCount := desiredCount k\<rparr>)).
        replicaEnvironment r ''KAFKA_BROKER_ID'' = Some ''1''
        \<and> replicaEnvironment r ''KAFKA_BROKER_RACK'' = Some ''RACK1''"
    by blast
  from k(2) have c: "desiredCount k = 3" by (simp add: replicas_def)
  from k(3) have e: "replicaEnvironment (taskDefinition k) ''KAFKA_BROKER_ID'' = Some ''1''"
    "replicaEnvironment (taskDefinition k) ''KAFKA_BROKER_RACK'' = Some ''RACK1''"
    by (simp_all add: replicas_def c)
  have "map (\<lambda>r. replicaEnvironment r ''KAFKA_BROKER_ID'') (replicas k)
              = [Some ''1'', Some ''1'', Some ''1'']"
       "map (\<lambda>r. replicaEnvironment r ''KAFKA_BROKER_RACK'') (replicas k)
              = [Some ''RACK1'', Some ''RACK1'', Some ''RACK1'']"
    by (simp_all add: replicas_def c e numeral_3_eq_3)
  with k(1) have "\<exists>k. workload (projr scenarioServices) ''KafkaService'' = Some k
          \<and> map (\<lambda>r. replicaEnvironment r ''KAFKA_BROKER_ID'') (replicas k)
              = [Some ''1'', Some ''1'', Some ''1'']
          \<and> map (\<lambda>r. replicaEnvironment r ''KAFKA_BROKER_RACK'') (replicas k)
              = [Some ''RACK1'', Some ''RACK1'', Some ''RACK1'']"
    by (intro exI conjI)
  with scenarioServices_ok show ?thesis by (intro conjI)
qed

end
